theory Spec2Isabelle
  imports Main "HOL-Library.Sublist"
begin

section \<open>Data model (src/services/chatApi.ts)\<close>

text \<open>
  The chat client of boardlyX: \<^verbatim>\<open>components/dashboard/ChatPage.tsx\<close> (the page's state
  and its handlers) and \<^verbatim>\<open>src/hooks/useSocket.ts\<close> (the shared socket).

  Strings are HOL strings. The source counts UTF-16 code units and HOL counts
  characters of one byte, so offsets agree on ASCII text, which is what the
  model covers.

  \<^verbatim>\<open>created_at\<close> is an ISO date string on the wire. The source never reads it but through
  \<^verbatim>\<open>new Date(created_at)\<close>, so the model keeps the instant it denotes, in milliseconds
  since the epoch.
\<close>

type_synonym timestamp = nat

text \<open>
  \<^verbatim>\<open>interface Message\<close>. The field \<^verbatim>\<open>id\<close> is \<open>msg_id\<close> here (\<open>id\<close> is HOL's
  identity function). The display copies \<^verbatim>\<open>reply_to\<close> and \<^verbatim>\<open>sender\<close> are left out: no
  handler modelled below reads them.
\<close>

record message =
  msg_id :: string
  conversation_id :: string
  sender_id :: string
  content :: string
  media_type :: "string option"
  media_data :: "string option"
  reply_to_id :: "string option"
  created_at :: timestamp

text \<open>\<^verbatim>\<open>interface ConversationMember\<close> (without the email, which the page never reads).\<close>

record member =
  member_id :: string
  member_name :: string
  username :: string

text \<open>
  \<^verbatim>\<open>interface Conversation\<close>, with the fields the handlers below read or write:
  \<^verbatim>\<open>id\<close>, \<^verbatim>\<open>members\<close> and the single \<^verbatim>\<open>pinned_message\<close> slot (\<^verbatim>\<open>null\<close> or absent is
  \<open>None\<close>).
\<close>

record conversation =
  conv_id :: string
  members :: "member list"
  pinned_message :: "message option"

section \<open>The page's state (ChatPage.tsx, the useState cells)\<close>

text \<open>\<^verbatim>\<open>mediaPreview: { type, data, name }\<close>, the staged attachment.\<close>

record media_preview =
  mp_type :: string
  mp_data :: string
  mp_name :: string

text \<open>\<^verbatim>\<open>mentionQuery: { active, text, index }\<close>.\<close>

record mention_query =
  mq_active :: bool
  mq_text :: string
  mq_index :: nat

text \<open>
  The values \<^verbatim>\<open>setUploadError\<close> is given. The text of the size error prints the size
  in MB with one decimal (\<^verbatim>\<open>toFixed(1)\<close>); the model keeps the size in bytes instead.
\<close>

datatype upload_error =
  FileTooLarge nat
  | UnsupportedType
  | ReadFailed
  | SendMediaFailed string

record chat_state =
  conversations :: "conversation list"
  activeConvId :: "string option"
  messages :: "message list"
  messageInput :: string
  loadingMsgs :: bool
  sending :: bool
  typingUsers :: "string set"
  showMobileChat :: bool
  mediaPreview :: "media_preview option"
  uploading :: bool
  uploadError :: "upload_error option"
  showAttachMenu :: bool
  replyingTo :: "message option"
  mentionQuery :: "mention_query option"

text \<open>The initial values of the cells.\<close>

definition initial_state :: chat_state where
  "initial_state =
     \<lparr>conversations = [], activeConvId = None, messages = [], messageInput = [],
      loadingMsgs = False, sending = False, typingUsers = {}, showMobileChat = False,
      mediaPreview = None, uploading = False, uploadError = None, showAttachMenu = False,
      replyingTo = None, mentionQuery = None\<rparr>"

text \<open>
  \<^verbatim>\<open>!x\<close> for \<open>x\<close> a string or \<^verbatim>\<open>null\<close>, as in \<^verbatim>\<open>!activeConvId\<close> and \<^verbatim>\<open>!token\<close>: \<open>x\<close> is \<^verbatim>\<open>null\<close>
  or the empty string.
\<close>

definition falsy :: "string option \<Rightarrow> bool" where
  "falsy x = (case x of None \<Rightarrow> True | Some t \<Rightarrow> t = [])"

text \<open>\<^verbatim>\<open>activeConv = conversations.find((c) => c.id === activeConvId)\<close>.\<close>

definition activeConv :: "chat_state \<Rightarrow> conversation option" where
  "activeConv st =
     (case activeConvId st of
        None \<Rightarrow> None
      | Some a \<Rightarrow> find (\<lambda>c. conv_id c = a) (conversations st))"

section \<open>Message timeline\<close>

text \<open>
  The updater the \<^verbatim>\<open>new_message\<close> handler gives to \<^verbatim>\<open>setMessages\<close>:
  \<^verbatim>\<open>(prev) => { if (prev.some((m) => m.id === message.id)) return prev;
               return [...prev, message]; }\<close>
\<close>

definition appendIfNew :: "message \<Rightarrow> message list \<Rightarrow> message list" where
  "appendIfNew message prev =
     (if list_ex (\<lambda>m. msg_id m = msg_id message) prev then prev else prev @ [message])"

text \<open>
  The handler registered by \<^verbatim>\<open>onNewMessage\<close>, on the timeline: the update is made only
  when the message belongs to the active conversation. (The handler goes on to
  refresh the last-message summary of the message's conversation and to sort
  \<^verbatim>\<open>conversations\<close> by last activity. The summary fields are not in the model, and
  that second half of the handler is left out: it does not touch \<^verbatim>\<open>messages\<close>.)
\<close>

definition onNewMessage :: "message \<Rightarrow> chat_state \<Rightarrow> chat_state" where
  "onNewMessage message st =
     (if Some (conversation_id message) = activeConvId st
      then st\<lparr>messages := appendIfNew message (messages st)\<rparr>
      else st)"

text \<open>A sequence of \<^verbatim>\<open>new_message\<close> events, delivered in order.\<close>

fun deliver :: "message list \<Rightarrow> chat_state \<Rightarrow> chat_state" where
  "deliver [] st = st"
| "deliver (m # ms) st = deliver ms (onNewMessage m st)"








text \<open>A text message, for the scenarios below.\<close>

definition text_message :: "string \<Rightarrow> string \<Rightarrow> string \<Rightarrow> timestamp \<Rightarrow> message" where
  "text_message i c body t =
     \<lparr>msg_id = i, conversation_id = c, sender_id = ''u2'', content = body,
      media_type = None, media_data = None, reply_to_id = None, created_at = t\<rparr>"

text \<open>Conversation A with its members, and a conversation B.\<close>

definition conversation_A :: conversation where
  "conversation_A =
     \<lparr>conv_id = ''A'',
      members = [\<lparr>member_id = ''u1'', member_name = ''Me'', username = ''me''\<rparr>,
                 \<lparr>member_id = ''u2'', member_name = ''Amy'', username = ''amy''\<rparr>,
                 \<lparr>member_id = ''u3'', member_name = ''Amir'', username = ''amir''\<rparr>],
      pinned_message = None\<rparr>"


text \<open>
  A timeline of conversation A for the scenarios below: A is in the directory and
  open, with messages stamped 10:00 and 10:02 (of the first day of the epoch, in
  milliseconds), none stamped 10:01 yet.
\<close>

definition timeline_A :: chat_state where
  "timeline_A =
     initial_state\<lparr>conversations := [conversation_A], activeConvId := Some ''A'',
       messages := [text_message ''m1'' ''A'' ''first'' 36000000,
                    text_message ''m3'' ''A'' ''third'' 36120000]\<rparr>"




section \<open>The shared socket (src/hooks/useSocket.ts)\<close>

text \<open>
  The module keeps \<^verbatim>\<open>globalSocket\<close> and \<^verbatim>\<open>connectionCount\<close>. A socket is named by a
  number. Two more components are kept for the proofs and are not in the source:
  \<open>io_calls\<close> counts the calls of \<^verbatim>\<open>io(...)\<close> (each opens a transport, named by the
  count), and \<open>open_transports\<close> lists the transports opened and not yet closed
  by \<^verbatim>\<open>disconnect()\<close>.
\<close>

type_synonym socket = nat

record socket_state =
  globalSocket :: "socket option"
  connectionCount :: int
  io_calls :: nat
  open_transports :: "socket list"

definition initial_sockets :: socket_state where
  "initial_sockets =
     \<lparr>globalSocket = None, connectionCount = 0, io_calls = 0, open_transports = []\<rparr>"

text \<open>
  The body of the effect of \<^verbatim>\<open>useSocket\<close>, run when a consumer mounts. The boolean
  says whether the effect returned its cleanup. (The \<^verbatim>\<open>connect\<close> and \<^verbatim>\<open>disconnect\<close>
  listeners only set the consumer's \<^verbatim>\<open>isConnected\<close> flag and are left out.)
\<close>

definition useSocket_mount :: "string option \<Rightarrow> socket_state \<Rightarrow> socket_state \<times> bool" where
  "useSocket_mount token s =
     (if falsy token then (s, False)
      else
        let s1 = s\<lparr>connectionCount := connectionCount s + 1\<rparr>;
            s2 = (case globalSocket s1 of
                    None \<Rightarrow>
                      s1\<lparr>globalSocket := Some (io_calls s1),
                         io_calls := io_calls s1 + 1,
                         open_transports := open_transports s1 @ [io_calls s1]\<rparr>
                  | Some sock \<Rightarrow> s1)
        in (s2, True))"

text \<open>The cleanup the effect returns, run when the consumer unmounts.\<close>

definition useSocket_cleanup :: "socket_state \<Rightarrow> socket_state" where
  "useSocket_cleanup s =
     (let s1 = s\<lparr>connectionCount := connectionCount s - 1\<rparr> in
      case globalSocket s1 of
        None \<Rightarrow> s1
      | Some sock \<Rightarrow>
          if connectionCount s1 = 0
          then s1\<lparr>globalSocket := None,
                  open_transports := removeAll sock (open_transports s1)\<rparr>
          else s1)"

text \<open>
  Consumers come and go. \<open>Mount k token\<close>: component \<open>k\<close> mounts while the stored
  token is \<open>token\<close>; \<open>Unmount k\<close>: it unmounts, which runs its cleanup if its effect
  returned one. \<open>cleanups\<close> lists the components whose cleanup is still to run.
\<close>

datatype lifecycle = Mount nat "string option" | Unmount nat

record session =
  sockets :: socket_state
  cleanups :: "nat list"

definition initial_session :: session where
  "initial_session = \<lparr>sockets = initial_sockets, cleanups = []\<rparr>"

fun lifecycle_step :: "lifecycle \<Rightarrow> session \<Rightarrow> session" where
  "lifecycle_step (Mount k token) s =
     (if k \<in> set (cleanups s) then s
      else case useSocket_mount token (sockets s) of
             (s', registered) \<Rightarrow>
               \<lparr>sockets = s', cleanups = (if registered then k # cleanups s else cleanups s)\<rparr>)"
| "lifecycle_step (Unmount k) s =
     (if k \<in> set (cleanups s)
      then \<lparr>sockets = useSocket_cleanup (sockets s), cleanups = removeAll k (cleanups s)\<rparr>
      else s)"

fun run :: "lifecycle list \<Rightarrow> session \<Rightarrow> session" where
  "run [] s = s"
| "run (e # es) s = run es (lifecycle_step e s)"

text \<open>
  \<^verbatim>\<open>sendMessage\<close> returns a promise built with \<^verbatim>\<open>new Promise((resolve) => ...)\<close>. The
  acknowledgment the server passes to the callback is \<^verbatim>\<open>response: any\<close>: \<open>None\<close> when
  it is \<^verbatim>\<open>undefined\<close> or \<^verbatim>\<open>null\<close>, else its \<^verbatim>\<open>success\<close> (read for truthiness) and its
  \<^verbatim>\<open>message\<close>. \<open>NoAck\<close>: the callback is never called.
\<close>

record response =
  success :: bool
  response_message :: "message option"

datatype ack = NoAck | Ack "response option"

datatype 'a promise = Pending | Resolved 'a | Rejected string

definition is_resolved :: "'a promise \<Rightarrow> bool" where
  "is_resolved p = (case p of Resolved v \<Rightarrow> True | Pending \<Rightarrow> False | Rejected err \<Rightarrow> False)"

definition sendMessage ::
  "socket option \<Rightarrow> string \<Rightarrow> string \<Rightarrow> string option \<Rightarrow> ack \<Rightarrow> message option promise"
where
  "sendMessage sock conversationId content' replyToId a =
     (case sock of
        None \<Rightarrow> Resolved None
      | Some s \<Rightarrow>
          (case a of
             NoAck \<Rightarrow> Pending
           | Ack None \<Rightarrow> Resolved None
           | Ack (Some r) \<Rightarrow> if success r then Resolved (response_message r) else Resolved None))"

text \<open>
  What holds of a session after every step: the counter is the number of consumers
  whose cleanup is pending, no consumer is listed twice, the open transports are
  exactly the socket in \<^verbatim>\<open>globalSocket\<close> (none when it is \<^verbatim>\<open>null\<close>), and there is a socket
  exactly when there is a consumer.
\<close>

definition session_inv :: "session \<Rightarrow> bool" where
  "session_inv s =
     (connectionCount (sockets s) = int (length (cleanups s))
      \<and> distinct (cleanups s)
      \<and> open_transports (sockets s)
          = (case globalSocket (sockets s) of None \<Rightarrow> [] | Some x \<Rightarrow> [x])
      \<and> (globalSocket (sockets s) = None) = (cleanups s = []))"

text \<open>Two consumers have mounted with a token in the store.\<close>

definition two_consumers :: session where
  "two_consumers = run [Mount 1 (Some ''jwt''), Mount 2 (Some ''jwt'')] initial_session"

section \<open>The composer (ChatPage.tsx)\<close>

text \<open>
  White space as \<^verbatim>\<open>String.prototype.trim\<close> and the class \<^verbatim>\<open>\s\<close> see it, on ASCII: tab,
  line feed, vertical tab, form feed, carriage return and space.
\<close>

definition is_space :: "char \<Rightarrow> bool" where
  "is_space c = (c \<in> set [CHR 0x09, CHR 0x0A, CHR 0x0B, CHR 0x0C, CHR 0x0D, CHR 0x20])"

definition trim :: "string \<Rightarrow> string" where
  "trim s = rev (dropWhile is_space (rev (dropWhile is_space s)))"

text \<open>
  \<^verbatim>\<open>handleSendMedia\<close>. \<open>handleSendMedia_request\<close> is what \<^verbatim>\<open>chatApi.sendMediaMessage\<close> is
  called with, if it is called: the staged attachment and nothing else. \<open>result\<close> is how the
  request ends: the created message, or the error's text (empty when the error
  has none).
\<close>

record media_request =
  mr_conversationId :: string
  mr_mediaType :: string
  mr_mediaData :: string
  mr_content :: "string option"
  mr_replyToId :: "string option"

definition handleSendMedia_request :: "chat_state \<Rightarrow> media_request option" where
  "handleSendMedia_request st =
     (case mediaPreview st of
        None \<Rightarrow> None
      | Some mp \<Rightarrow>
          (case activeConvId st of
             None \<Rightarrow> None
           | Some conv \<Rightarrow>
               if falsy (Some conv) \<or> uploading st then None
               else Some \<lparr>mr_conversationId = conv, mr_mediaType = mp_type mp,
                           mr_mediaData = mp_data mp,
                           mr_content = (if trim (messageInput st) = [] then None
                                         else Some (trim (messageInput st))),
                           mr_replyToId = map_option msg_id (replyingTo st)\<rparr>))"

definition handleSendMedia :: "string + message \<Rightarrow> chat_state \<Rightarrow> chat_state" where
  "handleSendMedia result st =
     (case handleSendMedia_request st of
        None \<Rightarrow> st
      | Some req \<Rightarrow>
          (case result of
             Inr m \<Rightarrow>
               st\<lparr>uploadError := None, mediaPreview := None, messageInput := [],
                  replyingTo := None, uploading := False\<rparr>
           | Inl err \<Rightarrow>
               st\<lparr>uploadError :=
                    Some (SendMediaFailed (if err = [] then ''Failed to send media'' else err)),
                  uploading := False\<rparr>))"

text \<open>
  \<^verbatim>\<open>handleSend\<close>. After the guard, a staged attachment goes by \<^verbatim>\<open>handleSendMedia\<close>. For
  text, the input and the reply target are cleared and \<^verbatim>\<open>sending\<close> is set before the
  \<^verbatim>\<open>await\<close> (\<open>handleSend_optimistic\<close>); \<open>handleSend_settled\<close> is what runs after it: the
  \<^verbatim>\<open>catch\<close> block puts the text back when the promise was rejected, \<^verbatim>\<open>finally\<close> clears
  \<^verbatim>\<open>sending\<close>; while the promise is pending nothing runs. The promise is the one
  \<^verbatim>\<open>sendMessage\<close> returns.
\<close>

definition handleSend_optimistic :: "chat_state \<Rightarrow> chat_state" where
  "handleSend_optimistic st = st\<lparr>messageInput := [], replyingTo := None, sending := True\<rparr>"

definition handleSend_settled ::
  "string \<Rightarrow> message option promise \<Rightarrow> chat_state \<Rightarrow> chat_state"
where
  "handleSend_settled content' p st =
     (case p of
        Pending \<Rightarrow> st
      | Resolved v \<Rightarrow> st\<lparr>sending := False\<rparr>
      | Rejected err \<Rightarrow> st\<lparr>messageInput := content', sending := False\<rparr>)"

definition handleSend ::
  "socket option \<Rightarrow> ack \<Rightarrow> string + message \<Rightarrow> chat_state \<Rightarrow> chat_state"
where
  "handleSend sock a upload st =
     (case activeConvId st of
        None \<Rightarrow> st
      | Some conv \<Rightarrow>
          if (trim (messageInput st) = [] \<and> mediaPreview st = None) \<or> falsy (Some conv)
             \<or> sending st \<or> uploading st
          then st
          else if mediaPreview st \<noteq> None then handleSendMedia upload st
          else
            let content' = trim (messageInput st);
                replyToId = map_option msg_id (replyingTo st)
            in handleSend_settled content' (sendMessage sock conv content' replyToId a)
                 (handleSend_optimistic st))"

text \<open>
  \<^verbatim>\<open>handleFileSelect\<close>. \<open>picked\<close> is \<^verbatim>\<open>e.target.files?.[0]\<close>. The \<^verbatim>\<open>FileReader\<close> calls back
  later with the data URL or with an error; \<open>read\<close> is which, and the model applies
  it at once.
\<close>

record selected_file =
  file_size :: nat
  file_type :: string
  file_name :: string

datatype read_result = ReadOk string | ReadFailure

definition MAX_FILE_SIZE :: nat where
  "MAX_FILE_SIZE = 2 * 1024 * 1024"

definition handleFileSelect :: "selected_file option \<Rightarrow> read_result \<Rightarrow> chat_state \<Rightarrow> chat_state" where
  "handleFileSelect picked read st =
     (case picked of
        None \<Rightarrow> st
      | Some f \<Rightarrow>
          let st1 = st\<lparr>uploadError := None, showAttachMenu := False\<rparr> in
          if file_size f > MAX_FILE_SIZE
          then st1\<lparr>uploadError := Some (FileTooLarge (file_size f))\<rparr>
          else if \<not> prefix ''image/'' (file_type f) \<and> \<not> prefix ''video/'' (file_type f)
          then st1\<lparr>uploadError := Some UnsupportedType\<rparr>
          else
            (case read of
               ReadOk data \<Rightarrow>
                 st1\<lparr>mediaPreview :=
                       Some \<lparr>mp_type = file_type f, mp_data = data, mp_name = file_name f\<rparr>\<rparr>
             | ReadFailure \<Rightarrow> st1\<lparr>uploadError := Some ReadFailed\<rparr>))"

text \<open>
  Where the page prints \<^verbatim>\<open>uploadError\<close>: the only \<^verbatim>\<open>{uploadError && <p ...>}\<close> of the
  component stands inside the media preview bar, \<^verbatim>\<open>{mediaPreview && ( ... )}\<close>, itself
  inside the pane of the active conversation, \<^verbatim>\<open>{activeConv ? ( ... ) : ...}\<close>.
\<close>

definition uploadError_shown :: "chat_state \<Rightarrow> upload_error option" where
  "uploadError_shown st =
     (case activeConv st of
        None \<Rightarrow> None
      | Some c \<Rightarrow> (case mediaPreview st of None \<Rightarrow> None | Some mp \<Rightarrow> uploadError st))"

text \<open>A page where conversation A is open.\<close>

definition open_A :: chat_state where
  "open_A = initial_state\<lparr>conversations := [conversation_A], activeConvId := Some ''A''\<rparr>"

text \<open>A text draft in the open conversation A, and a 3 MiB picture.\<close>

definition drafting :: chat_state where
  "drafting = open_A\<lparr>messageInput := ''see you at 5''\<rparr>"

definition big_png :: selected_file where
  "big_png = \<lparr>file_size = 3 * 1024 * 1024, file_type = ''image/png'', file_name = ''big.png''\<rparr>"

section \<open>Mention autocomplete (ChatPage.tsx)\<close>

text \<open>
  \<^verbatim>\<open>text.split(/[\s\n]/)\<close>: the pieces between the white-space characters, in order;
  never an empty list (\<^verbatim>\<open>''.split(...)\<close> is \<^verbatim>\<open>['']\<close>).
\<close>

fun split_on :: "(char \<Rightarrow> bool) \<Rightarrow> string \<Rightarrow> string list" where
  "split_on p [] = [[]]"
| "split_on p (c # cs) =
     (if p c then [] # split_on p cs
      else (case split_on p cs of [] \<Rightarrow> [[c]] | w # ws \<Rightarrow> (c # w) # ws))"

text \<open>\<^verbatim>\<open>toLowerCase\<close> on ASCII letters.\<close>

definition to_lower :: "char \<Rightarrow> char" where
  "to_lower c =
     (let n = (of_char c :: nat) in if 65 \<le> n \<and> n \<le> 90 then char_of (n + 32) else c)"

text \<open>\<^verbatim>\<open>s.includes(t)\<close>: \<open>t\<close> stands somewhere in \<open>s\<close>.\<close>

fun includes_str :: "string \<Rightarrow> string \<Rightarrow> bool" where
  "includes_str [] t = (t = [])"
| "includes_str (c # cs) t = (prefix t (c # cs) \<or> includes_str cs t)"

text \<open>\<^verbatim>\<open>textareaRef.current?.selectionStart || 0\<close>: the caret, 0 when there is no textarea.\<close>

definition caret :: "nat option \<Rightarrow> nat" where
  "caret selectionStart = (case selectionStart of None \<Rightarrow> 0 | Some n \<Rightarrow> n)"

text \<open>
  \<^verbatim>\<open>handleInputChange(val)\<close>, run on every change of the textarea, with the caret as
  the textarea has it then. It stores the text and recomputes \<^verbatim>\<open>mentionQuery\<close> from
  the word that ends at the caret (\<open>currentWord\<close>, the last piece of the text before
  the caret). (It also emits the typing signals and arms a two-second timer; they
  touch no cell and are not modelled.)
\<close>

definition currentWord :: "string \<Rightarrow> nat \<Rightarrow> string" where
  "currentWord val cursorPosition =
     (let textBeforeCursor = take cursorPosition val;
          words = split_on is_space textBeforeCursor
      in last words)"

definition handleInputChange :: "string \<Rightarrow> nat option \<Rightarrow> chat_state \<Rightarrow> chat_state" where
  "handleInputChange val selectionStart st =
     (let cursorPosition = caret selectionStart;
          currentWord = currentWord val cursorPosition
      in st\<lparr>messageInput := val,
            mentionQuery :=
              (if prefix ''@'' currentWord
               then Some \<lparr>mq_active = True, mq_text = map to_lower (drop 1 currentWord),
                           mq_index = cursorPosition - length currentWord\<rparr>
               else None)\<rparr>)"

text \<open>
  \<^verbatim>\<open>handleMentionSelect(username)\<close>, with the caret as the textarea has it when the
  candidate is clicked: the text up to the stored index, the mention, and the text
  from the caret on.
\<close>

definition handleMentionSelect :: "string \<Rightarrow> nat option \<Rightarrow> chat_state \<Rightarrow> chat_state" where
  "handleMentionSelect uname selectionStart st =
     (case mentionQuery st of
        None \<Rightarrow> st
      | Some mq \<Rightarrow>
          let beforeMention = take (mq_index mq) (messageInput st);
              afterMention = drop (caret selectionStart) (messageInput st)
          in st\<lparr>messageInput := beforeMention @ ''@'' @ uname @ '' '' @ afterMention,
                mentionQuery := None\<rparr>)"

text \<open>\<^verbatim>\<open>mentionableMembers\<close>, the candidates the dropdown lists.\<close>

definition mentionableMembers :: "string \<Rightarrow> chat_state \<Rightarrow> member list" where
  "mentionableMembers currentUserId st =
     (let q = (case mentionQuery st of None \<Rightarrow> [] | Some mq \<Rightarrow> mq_text mq) in
      case activeConv st of
        None \<Rightarrow> []
      | Some c \<Rightarrow>
          filter (\<lambda>m. member_id m \<noteq> currentUserId
                       \<and> (includes_str (map to_lower (username m)) q
                            \<or> includes_str (map to_lower (member_name m)) q))
            (members c))"

text \<open>The user has typed \<^verbatim>\<open>@am\<close> in conversation A; the caret stands after it.\<close>

definition typed_at_am :: chat_state where
  "typed_at_am = handleInputChange ''@am'' (Some 3) open_A"

section \<open>Typing indicators (ChatPage.tsx)\<close>

text \<open>The payload of \<^verbatim>\<open>user_typing\<close> and \<^verbatim>\<open>user_stop_typing\<close>.\<close>

record typing_data =
  conversationId :: string
  userId :: string

text \<open>The two handlers; \<open>currentUserId\<close> is the signed-in user's id.\<close>

definition onTyping :: "string \<Rightarrow> typing_data \<Rightarrow> chat_state \<Rightarrow> chat_state" where
  "onTyping currentUserId data st =
     (if Some (conversationId data) = activeConvId st \<and> userId data \<noteq> currentUserId
      then st\<lparr>typingUsers := insert (userId data) (typingUsers st)\<rparr>
      else st)"

definition onStopTyping :: "typing_data \<Rightarrow> chat_state \<Rightarrow> chat_state" where
  "onStopTyping data st =
     (if Some (conversationId data) = activeConvId st
      then st\<lparr>typingUsers := typingUsers st - {userId data}\<rparr>
      else st)"

section \<open>The pinned message (ChatPage.tsx)\<close>











section \<open>Theorems\<close>

subsection \<open>De-duplication of the timeline\<close>

lemma appendIfNew_distinct:
  "distinct (map msg_id prev) \<Longrightarrow> distinct (map msg_id (appendIfNew message prev))"
  by (auto simp: appendIfNew_def list_ex_iff)

lemma onNewMessage_distinct:
  "distinct (map msg_id (messages st)) \<Longrightarrow> distinct (map msg_id (messages (onNewMessage m st)))"
  by (simp add: onNewMessage_def appendIfNew_distinct)

lemma deliver_distinct:
  "distinct (map msg_id (messages st)) \<Longrightarrow> distinct (map msg_id (messages (deliver evs st)))"
proof (induction evs arbitrary: st)
  case Nil
  then show ?case by simp
next
  case (Cons m evs)
  from Cons.prems have "distinct (map msg_id (messages (onNewMessage m st)))"
    by (rule onNewMessage_distinct)
  then show ?case by (simp add: Cons.IH)
qed

lemma onNewMessage_known_id:
  "msg_id m \<in> msg_id ` set (messages st) \<Longrightarrow> messages (onNewMessage m st) = messages st"
  by (auto simp: onNewMessage_def appendIfNew_def list_ex_iff)

text \<open>
  C1. Whatever \<^verbatim>\<open>new_message\<close> events are delivered, in whatever order and with
  whatever repetitions, a timeline whose ids are pairwise different keeps ids
  that are pairwise different; this holds in particular from the empty timeline
  the page starts with. An event whose id is already in the timeline leaves the
  timeline as it is.
\<close>

theorem new_message_dedup:
  "(distinct (map msg_id (messages st)) \<longrightarrow>
      distinct (map msg_id (messages (deliver evs st))))
   \<and> distinct (map msg_id (messages (deliver evs (initial_state\<lparr>activeConvId := c\<rparr>))))
   \<and> (msg_id m \<in> msg_id ` set (messages st) \<longrightarrow>
        messages (onNewMessage m st) = messages st)"
proof (intro conjI impI)
  assume "distinct (map msg_id (messages st))"
  then show "distinct (map msg_id (messages (deliver evs st)))"
    by (rule deliver_distinct)
next
  have "distinct (map msg_id (messages (initial_state\<lparr>activeConvId := c\<rparr>)))"
    by (simp add: initial_state_def)
  then show "distinct (map msg_id (messages (deliver evs (initial_state\<lparr>activeConvId := c\<rparr>))))"
    by (rule deliver_distinct)
next
  assume "msg_id m \<in> msg_id ` set (messages st)"
  then show "messages (onNewMessage m st) = messages st"
    by (rule onNewMessage_known_id)
qed

theorem new_message_dedup_witness:
  "distinct (map msg_id (messages timeline_A))
   \<and> distinct (map msg_id (messages (deliver
        [text_message ''m2'' ''A'' ''second'' 36060000,
         text_message ''m2'' ''A'' ''second'' 36060000,
         text_message ''m1'' ''A'' ''first'' 36000000] timeline_A)))
   \<and> msg_id (text_message ''m1'' ''A'' ''first'' 36000000) \<in> msg_id ` set (messages timeline_A)
   \<and> messages (onNewMessage (text_message ''m1'' ''A'' ''first'' 36000000) timeline_A)
       = messages timeline_A"
proof -
  have d: "distinct (map msg_id (messages timeline_A))"
    by (simp add: timeline_A_def initial_state_def text_message_def)
  have k: "msg_id (text_message ''m1'' ''A'' ''first'' 36000000) \<in> msg_id ` set (messages timeline_A)"
    by (simp add: timeline_A_def initial_state_def text_message_def)
  from d k new_message_dedup [of timeline_A
      "[text_message ''m2'' ''A'' ''second'' 36060000,
        text_message ''m2'' ''A'' ''second'' 36060000,
        text_message ''m1'' ''A'' ''first'' 36000000]"
      "Some ''A''" "text_message ''m1'' ''A'' ''first'' 36000000"]
  show ?thesis by blast
qed

subsection \<open>Order of the timeline\<close>











subsection \<open>Loading a conversation\<close>






subsection \<open>The shared socket\<close>

lemma session_inv_initial: "session_inv initial_session"
  by (simp add: session_inv_def initial_session_def initial_sockets_def)

lemma session_inv_mount:
  assumes "session_inv s"
  shows "session_inv (lifecycle_step (Mount k token) s)"
  using assms
  by (auto simp: session_inv_def useSocket_mount_def Let_def split: option.splits)

lemma length_removeAll_distinct:
  "distinct xs \<Longrightarrow> k \<in> set xs \<Longrightarrow> int (length (removeAll k xs)) = int (length xs) - 1"
  by (induction xs) auto

lemma removeAll_eq_Nil_iff:
  "distinct xs \<Longrightarrow> k \<in> set xs \<Longrightarrow> (removeAll k xs = []) = (length xs = 1)"
  by (cases xs) auto

lemma session_inv_unmount:
  assumes "session_inv s"
  shows "session_inv (lifecycle_step (Unmount k) s)"
proof (cases "k \<in> set (cleanups s)")
  case False
  with assms show ?thesis by simp
next
  case True
  from assms have d: "distinct (cleanups s)" by (simp add: session_inv_def)
  from assms True have g: "globalSocket (sockets s) \<noteq> None"
    by (auto simp: session_inv_def)
  then obtain x where x: "globalSocket (sockets s) = Some x" by blast
  from assms x have o: "open_transports (sockets s) = [x]" by (simp add: session_inv_def)
  from assms have c: "connectionCount (sockets s) = int (length (cleanups s))"
    by (simp add: session_inv_def)
  have l: "int (length (removeAll k (cleanups s))) = int (length (cleanups s)) - 1"
    using d True by (rule length_removeAll_distinct)
  have n: "(removeAll k (cleanups s) = []) = (length (cleanups s) = 1)"
    using d True by (rule removeAll_eq_Nil_iff)
  show ?thesis
    using True x o c l n d
    by (auto simp: session_inv_def useSocket_cleanup_def Let_def distinct_removeAll)
qed

lemma session_inv_step: "session_inv s \<Longrightarrow> session_inv (lifecycle_step e s)"
  by (cases e) (simp_all only: session_inv_mount session_inv_unmount)

lemma session_inv_run: "session_inv s \<Longrightarrow> session_inv (run es s)"
  by (induction es arbitrary: s) (simp_all add: session_inv_step)

lemma mount_reuses:
  "\<not> falsy token \<Longrightarrow> globalSocket s = Some x \<Longrightarrow>
   useSocket_mount token s = (s\<lparr>connectionCount := connectionCount s + 1\<rparr>, True)"
  by (simp add: useSocket_mount_def Let_def)

lemma mount_opens:
  "\<not> falsy token \<Longrightarrow> globalSocket s = None \<Longrightarrow>
   globalSocket (fst (useSocket_mount token s)) = Some (io_calls s)
   \<and> io_calls (fst (useSocket_mount token s)) = io_calls s + 1"
  by (simp add: useSocket_mount_def Let_def)

lemma cleanup_teardown:
  "globalSocket (useSocket_cleanup s) \<noteq> globalSocket s
     \<or> open_transports (useSocket_cleanup s) \<noteq> open_transports s \<Longrightarrow>
   connectionCount (useSocket_cleanup s) = 0"
  by (auto simp: useSocket_cleanup_def Let_def split: option.splits if_splits)

text \<open>
  C9. Whatever consumers mount and unmount, at most one transport is open; there
  is a socket exactly while some consumer's cleanup is pending, and the counter is
  the number of those consumers. A mount that finds a socket keeps it and opens
  nothing (it only counts itself); a mount that finds none opens one; a mount
  without a token changes nothing and returns no cleanup. A cleanup that drops the
  socket or closes a transport is one that brought the counter to zero.
\<close>

theorem single_transport:
  "length (open_transports (sockets (run es initial_session))) \<le> 1
   \<and> (globalSocket (sockets (run es initial_session)) = None)
       = (cleanups (run es initial_session) = [])
   \<and> connectionCount (sockets (run es initial_session))
       = int (length (cleanups (run es initial_session)))
   \<and> (\<not> falsy token \<and> globalSocket s = Some x \<longrightarrow>
        useSocket_mount token s = (s\<lparr>connectionCount := connectionCount s + 1\<rparr>, True))
   \<and> (\<not> falsy token \<and> globalSocket s = None \<longrightarrow>
        globalSocket (fst (useSocket_mount token s)) = Some (io_calls s)
        \<and> io_calls (fst (useSocket_mount token s)) = io_calls s + 1)
   \<and> (falsy token \<longrightarrow> useSocket_mount token s = (s, False))
   \<and> (globalSocket (useSocket_cleanup s) \<noteq> globalSocket s
        \<or> open_transports (useSocket_cleanup s) \<noteq> open_transports s \<longrightarrow>
        connectionCount (useSocket_cleanup s) = 0)"
proof -
  have inv: "session_inv (run es initial_session)"
    using session_inv_initial by (rule session_inv_run)
  have a: "length (open_transports (sockets (run es initial_session))) \<le> 1"
    using inv by (simp add: session_inv_def split: option.splits)
  have b: "(globalSocket (sockets (run es initial_session)) = None)
       = (cleanups (run es initial_session) = [])"
    using inv by (simp add: session_inv_def)
  have c: "connectionCount (sockets (run es initial_session))
       = int (length (cleanups (run es initial_session)))"
    using inv by (simp add: session_inv_def)
  have d: "falsy token \<longrightarrow> useSocket_mount token s = (s, False)"
    by (simp add: useSocket_mount_def)
  from a b c d mount_reuses [of token s x] mount_opens [of token s] cleanup_teardown [of s]
  show ?thesis by blast
qed

theorem single_transport_witness:
  "length (open_transports (sockets (run [Mount 3 None, Unmount 1] two_consumers))) \<le> 1
   \<and> open_transports (sockets (run [Mount 3 None, Unmount 1] two_consumers)) = [0]
   \<and> \<not> falsy (Some ''jwt'')
   \<and> globalSocket (sockets two_consumers) = Some 0
   \<and> useSocket_mount (Some ''jwt'') (sockets two_consumers)
       = ((sockets two_consumers)\<lparr>connectionCount := 3\<rparr>, True)
   \<and> globalSocket initial_sockets = None
   \<and> globalSocket (fst (useSocket_mount (Some ''jwt'') initial_sockets)) = Some 0
   \<and> falsy None
   \<and> useSocket_mount None (sockets two_consumers) = (sockets two_consumers, False)
   \<and> globalSocket (useSocket_cleanup (useSocket_cleanup (sockets two_consumers)))
       \<noteq> globalSocket (useSocket_cleanup (sockets two_consumers))
   \<and> connectionCount (useSocket_cleanup (useSocket_cleanup (sockets two_consumers))) = 0"
proof -
  have s2: "sockets two_consumers
      = \<lparr>globalSocket = Some 0, connectionCount = 2, io_calls = 1, open_transports = [0]\<rparr>"
    by (simp add: two_consumers_def initial_session_def initial_sockets_def
        useSocket_mount_def falsy_def Let_def)
  have c2: "cleanups two_consumers = [2, 1]"
    by (simp add: two_consumers_def initial_session_def initial_sockets_def
        useSocket_mount_def falsy_def Let_def)
  have r: "run [Mount 3 None, Unmount 1] two_consumers
      = run [Mount 1 (Some ''jwt''), Mount 2 (Some ''jwt''), Mount 3 None, Unmount 1]
          initial_session"
    by (simp add: two_consumers_def)
  have o: "open_transports (sockets (run [Mount 3 None, Unmount 1] two_consumers)) = [0]"
    using s2 c2 by (simp add: useSocket_mount_def useSocket_cleanup_def falsy_def Let_def)
  have t: "\<not> falsy (Some ''jwt'')" "falsy None"
    by (simp_all add: falsy_def)
  have g: "globalSocket (sockets two_consumers) = Some 0"
    by (simp add: s2)
  have n: "globalSocket initial_sockets = None"
    by (simp add: initial_sockets_def)
  have k: "connectionCount (sockets two_consumers) + 1 = 3"
    by (simp add: s2)
  have u: "globalSocket (useSocket_cleanup (useSocket_cleanup (sockets two_consumers)))
       \<noteq> globalSocket (useSocket_cleanup (sockets two_consumers))"
    by (simp add: s2 useSocket_cleanup_def Let_def)
  have i0: "io_calls initial_sockets = 0"
    by (simp add: initial_sockets_def)
  have A: "length (open_transports (sockets (run [Mount 3 None, Unmount 1] two_consumers))) \<le> 1"
    unfolding r
    using single_transport
      [of "[Mount 1 (Some ''jwt''), Mount 2 (Some ''jwt''), Mount 3 None, Unmount 1]"]
    by blast
  have "useSocket_mount (Some ''jwt'') (sockets two_consumers)
       = ((sockets two_consumers)\<lparr>connectionCount := connectionCount (sockets two_consumers) + 1\<rparr>,
          True)"
    using single_transport [of "[]" "Some ''jwt''" "sockets two_consumers" 0] t g by blast
  then have B: "useSocket_mount (Some ''jwt'') (sockets two_consumers)
       = ((sockets two_consumers)\<lparr>connectionCount := 3\<rparr>, True)"
    by (simp only: k)
  have "globalSocket (fst (useSocket_mount (Some ''jwt'') initial_sockets))
       = Some (io_calls initial_sockets)"
    using single_transport [of "[]" "Some ''jwt''" initial_sockets] t n by blast
  then have C: "globalSocket (fst (useSocket_mount (Some ''jwt'') initial_sockets)) = Some 0"
    by (simp only: i0)
  have D: "useSocket_mount None (sockets two_consumers) = (sockets two_consumers, False)"
    using single_transport [of "[]" None "sockets two_consumers"] t by blast
  have E: "connectionCount (useSocket_cleanup (useSocket_cleanup (sockets two_consumers))) = 0"
    using single_transport [of "[]" None "useSocket_cleanup (sockets two_consumers)"] u
    by blast
  from A o t g B n C D u E show ?thesis by blast
qed

text \<open>
  C10 (as amended). The promise of \<^verbatim>\<open>sendMessage\<close> is never rejected. Without a
  socket it resolves with \<^verbatim>\<open>null\<close> at once. With a socket it resolves when the
  acknowledgment comes: with the acknowledged message when the acknowledgment
  reports success, with \<^verbatim>\<open>null\<close> when it reports failure or is empty. With a socket
  and no acknowledgment it stays pending: it resolves exactly when there is no
  socket or the acknowledgment has come.
\<close>

theorem sendMessage_never_rejects:
  "sendMessage sock c t r a \<noteq> Rejected e
   \<and> sendMessage None c t r a = Resolved None
   \<and> (success resp \<longrightarrow>
        sendMessage (Some s) c t r (Ack (Some resp)) = Resolved (response_message resp))
   \<and> (\<not> success resp \<longrightarrow> sendMessage (Some s) c t r (Ack (Some resp)) = Resolved None)
   \<and> sendMessage (Some s) c t r (Ack None) = Resolved None
   \<and> sendMessage (Some s) c t r NoAck = Pending
   \<and> is_resolved (sendMessage sock c t r a) = (sock = None \<or> a \<noteq> NoAck)"
  by (auto simp: sendMessage_def is_resolved_def split: option.splits ack.splits)

theorem sendMessage_never_rejects_witness:
  "success \<lparr>success = True, response_message = Some (text_message ''m9'' ''A'' ''hello'' 7)\<rparr>
   \<and> sendMessage (Some 0) ''A'' ''hello'' None
        (Ack (Some \<lparr>success = True,
                    response_message = Some (text_message ''m9'' ''A'' ''hello'' 7)\<rparr>))
       = Resolved (Some (text_message ''m9'' ''A'' ''hello'' 7))
   \<and> \<not> success \<lparr>success = False, response_message = None\<rparr>
   \<and> sendMessage (Some 0) ''A'' ''hello'' None
        (Ack (Some \<lparr>success = False, response_message = None\<rparr>))
       = Resolved None
   \<and> sendMessage None ''A'' ''hello'' None NoAck = Resolved None
   \<and> is_resolved (sendMessage None ''A'' ''hello'' None NoAck)
   \<and> is_resolved (sendMessage (Some 0) ''A'' ''hello'' None (Ack None))"
proof -
  let ?ok = "\<lparr>success = True, response_message = Some (text_message ''m9'' ''A'' ''hello'' 7)\<rparr>"
  let ?no = "\<lparr>success = False, response_message = None :: message option\<rparr>"
  note ok = sendMessage_never_rejects [of None "''A''" "''hello''" None NoAck undefined ?ok 0]
  note no = sendMessage_never_rejects
    [of "Some 0" "''A''" "''hello''" None "Ack None" undefined ?no 0]
  have s1: "success ?ok" and s2: "\<not> success ?no" by simp_all
  have "sendMessage (Some 0) ''A'' ''hello'' None (Ack (Some ?ok))
      = Resolved (response_message ?ok)"
    using ok s1 by blast
  then have A: "sendMessage (Some 0) ''A'' ''hello'' None (Ack (Some ?ok))
      = Resolved (Some (text_message ''m9'' ''A'' ''hello'' 7))"
    by simp
  have B: "sendMessage (Some 0) ''A'' ''hello'' None (Ack (Some ?no)) = Resolved None"
    using no s2 by blast
  have C: "sendMessage None ''A'' ''hello'' None NoAck = Resolved None"
    using ok by blast
  have D: "is_resolved (sendMessage None ''A'' ''hello'' None NoAck)"
    using ok by blast
  have "Ack None \<noteq> NoAck" by simp
  then have E: "is_resolved (sendMessage (Some 0) ''A'' ''hello'' None (Ack None))"
    using no by blast
  from s1 A s2 B C D E show ?thesis by blast
qed

text \<open>
  A socket exists and the server never acknowledges (the emit has no timeout):
  the promise does not resolve.
\<close>

theorem sendMessage_pending_counterexample:
  "sendMessage (Some 0) ''A'' ''hello'' None NoAck = Pending
   \<and> \<not> is_resolved (sendMessage (Some 0) ''A'' ''hello'' None NoAck)"
  by (simp add: sendMessage_def is_resolved_def)

subsection \<open>Sending\<close>

text \<open>
  A text-only send that passes the guard: while the request is in flight the
  input and the reply target are already cleared.
\<close>

lemma handleSend_in_flight:
  assumes "activeConvId st = Some conv" and "conv \<noteq> []" and "trim (messageInput st) \<noteq> []"
    and "mediaPreview st = None" and "\<not> sending st" and "\<not> uploading st"
  shows "handleSend (Some s) NoAck up st = handleSend_optimistic st"
    and "messageInput (handleSend_optimistic st) = []"
    and "replyingTo (handleSend_optimistic st) = None"
  using assms
  by (simp_all add: handleSend_def handleSend_settled_def handleSend_optimistic_def
      sendMessage_def falsy_def Let_def)

text \<open>
  And however it ends, the input stays empty: \<^verbatim>\<open>sendMessage\<close> never rejects, so the
  \<^verbatim>\<open>catch\<close> block that would put the text back never runs.
\<close>

lemma handleSend_text_stays_cleared:
  assumes "activeConvId st = Some conv" and "conv \<noteq> []" and "trim (messageInput st) \<noteq> []"
    and "mediaPreview st = None" and "\<not> sending st" and "\<not> uploading st"
  shows "messageInput (handleSend sock a up st) = []"
  using assms
  by (auto simp: handleSend_def handleSend_settled_def handleSend_optimistic_def sendMessage_def
      falsy_def Let_def split: option.splits ack.splits)

text \<open>
  C4. The draft \<^verbatim>\<open>see you at 5\<close> is sent as text and the send fails: the server
  acknowledges with \<^verbatim>\<open>success: false\<close>, or there is no socket at all. \<^verbatim>\<open>sendMessage\<close>
  resolves with \<^verbatim>\<open>null\<close>, \<^verbatim>\<open>handleSend\<close> ends normally, and the input is left empty:
  the draft is not restored.
\<close>

theorem failed_send_loses_draft:
  "messageInput drafting = ''see you at 5''
   \<and> sendMessage (Some 0) ''A'' ''see you at 5'' None
        (Ack (Some \<lparr>success = False, response_message = None\<rparr>)) = Resolved None
   \<and> messageInput
        (handleSend (Some 0) (Ack (Some \<lparr>success = False, response_message = None\<rparr>)) up
           drafting) = []
   \<and> sending
        (handleSend (Some 0) (Ack (Some \<lparr>success = False, response_message = None\<rparr>)) up
           drafting) = False
   \<and> messageInput (handleSend None NoAck up drafting) = []"
  by (simp add: drafting_def open_A_def initial_state_def handleSend_def handleSend_settled_def
      handleSend_optimistic_def sendMessage_def trim_def is_space_def falsy_def Let_def)

subsection \<open>Staging an attachment\<close>

text \<open>A file is staged only when it passes both checks (and the reader succeeds).\<close>

lemma staged_only_if_valid:
  assumes "mediaPreview (handleFileSelect picked rd st) \<noteq> mediaPreview st"
  shows "\<exists>f. picked = Some f \<and> file_size f \<le> MAX_FILE_SIZE
           \<and> (prefix ''image/'' (file_type f) \<or> prefix ''video/'' (file_type f))"
  using assms
  by (auto simp: handleFileSelect_def Let_def split: option.splits if_splits read_result.splits)

text \<open>A file over the limit sets the size error and leaves the staged attachment as it was.\<close>

lemma oversize_rejected:
  assumes "file_size f > MAX_FILE_SIZE"
  shows "handleFileSelect (Some f) rd st
         = st\<lparr>uploadError := Some (FileTooLarge (file_size f)), showAttachMenu := False\<rparr>"
  using assms by (simp add: handleFileSelect_def Let_def)

text \<open>What is uploaded is the staged attachment.\<close>

lemma upload_is_staged:
  assumes "handleSendMedia_request st = Some req"
  shows "\<exists>mp. mediaPreview st = Some mp \<and> mr_mediaType req = mp_type mp
           \<and> mr_mediaData req = mp_data mp"
  using assms
  by (auto simp: handleSendMedia_request_def split: option.splits if_splits)

text \<open>
  C7. A picture of 3 MiB is picked while nothing is staged. It is rejected with
  the size error, nothing is staged and no upload can follow, as the claim says.
  But the page prints \<^verbatim>\<open>uploadError\<close> only inside the preview bar of a staged
  attachment, and there is none: the error is stored and not shown.
\<close>

theorem oversize_error_not_shown:
  "mediaPreview open_A = None
   \<and> uploadError (handleFileSelect (Some big_png) rd open_A) = Some (FileTooLarge 3145728)
   \<and> mediaPreview (handleFileSelect (Some big_png) rd open_A) = None
   \<and> handleSendMedia_request (handleFileSelect (Some big_png) rd open_A) = None
   \<and> activeConv (handleFileSelect (Some big_png) rd open_A) = Some conversation_A
   \<and> uploadError_shown (handleFileSelect (Some big_png) rd open_A) = None"
  by (simp add: handleFileSelect_def big_png_def MAX_FILE_SIZE_def open_A_def initial_state_def
      handleSendMedia_request_def falsy_def uploadError_shown_def activeConv_def conversation_A_def
      Let_def)

subsection \<open>Mention autocomplete\<close>

lemma split_on_nonempty: "split_on p t \<noteq> []"
  by (induction t) (auto split: list.splits)

lemma last_split_on_suffix_aux:
  "\<exists>pre. t = pre @ last (split_on p t) \<and> \<not> list_ex p (last (split_on p t))
     \<and> (length (split_on p t) = 1 \<longrightarrow> pre = [])"
proof (induction t)
  case Nil
  then show ?case by simp
next
  case (Cons c cs)
  then obtain pre where pre: "cs = pre @ last (split_on p cs)"
    and np: "\<not> list_ex p (last (split_on p cs))"
    and one: "length (split_on p cs) = 1 \<longrightarrow> pre = []" by blast
  obtain w ws where w: "split_on p cs = w # ws"
    using split_on_nonempty [of p cs] by (cases "split_on p cs") auto
  show ?case
  proof (cases "p c \<or> ws \<noteq> []")
    case True
    with w have l: "last (split_on p (c # cs)) = last (split_on p cs)"
      and n: "length (split_on p (c # cs)) \<noteq> 1"
      by auto
    from pre have "c # cs = (c # pre) @ last (split_on p cs)" by simp
    with l n np show ?thesis by metis
  next
    case False
    with w have l: "last (split_on p (c # cs)) = c # w" by simp
    from False w one have "pre = []" by simp
    with pre w False have "cs = w" by simp
    with np w False l have "c # cs = [] @ last (split_on p (c # cs))"
      and "\<not> list_ex p (last (split_on p (c # cs)))"
      by simp_all
    then show ?thesis by blast
  qed
qed

text \<open>The word at the caret is the end of the text before the caret, free of white space.\<close>

lemma currentWord_suffix:
  assumes "cursor \<le> length val"
  shows "take cursor val = take (cursor - length (currentWord val cursor)) val @ currentWord val cursor"
    and "\<not> list_ex is_space (currentWord val cursor)"
    and "length (currentWord val cursor) \<le> cursor"
proof -
  let ?w = "currentWord val cursor"
  obtain pre where pre: "take cursor val = pre @ ?w" and ns: "\<not> list_ex is_space ?w"
    using last_split_on_suffix_aux [of "take cursor val" is_space]
    by (auto simp: currentWord_def)
  from ns show "\<not> list_ex is_space ?w" .
  from pre have "length (take cursor val) = length pre + length ?w" by simp
  with assms have len: "cursor = length pre + length ?w" by simp
  then show "length ?w \<le> cursor" by simp
  from len have "cursor - length ?w = length pre" by simp
  moreover have "take (length pre) val = take (length pre) (take cursor val)"
    using len by (simp add: min_def)
  ultimately have "take (cursor - length ?w) val = pre" using pre by simp
  with pre show "take cursor val = take (cursor - length ?w) val @ ?w" by simp
qed

lemma handleMentionSelect_text:
  "mentionQuery st = Some mq \<Longrightarrow>
   messageInput (handleMentionSelect u sel st)
     = take (mq_index mq) (messageInput st) @ ''@'' @ u @ '' '' @ drop (caret sel) (messageInput st)"
  by (simp add: handleMentionSelect_def Let_def)

lemma mention_at_caret:
  assumes "cursor \<le> length val" and "prefix ''@'' (currentWord val cursor)"
  shows "val = take (cursor - length (currentWord val cursor)) val @ currentWord val cursor
               @ drop cursor val"
    and "messageInput (handleMentionSelect u (Some cursor) (handleInputChange val (Some cursor) st))
         = take (cursor - length (currentWord val cursor)) val @ ''@'' @ u @ '' ''
             @ drop cursor val"
proof -
  have "val = take cursor val @ drop cursor val" by simp
  then show "val = take (cursor - length (currentWord val cursor)) val @ currentWord val cursor
               @ drop cursor val"
    using currentWord_suffix(1) [OF assms(1)] by (metis append.assoc)
  from assms(2) show "messageInput
       (handleMentionSelect u (Some cursor) (handleInputChange val (Some cursor) st))
         = take (cursor - length (currentWord val cursor)) val @ ''@'' @ u @ '' ''
             @ drop cursor val"
    by (simp add: handleMentionSelect_def handleInputChange_def caret_def Let_def)
qed

text \<open>
  C5 (as amended). Selecting a candidate replaces the text between the index
  stored by the last input change and the caret as it stands at the selection:
  the result is the text before the stored index, \<^verbatim>\<open>@username\<close> and a space, and
  the text from the current caret on. When the caret has not moved since that
  input change (it stands right after the partial token, which starts with \<^verbatim>\<open>@\<close> and
  holds no white space), this replaces exactly the partial token and leaves the
  text around it as it was.
\<close>

theorem mention_splice:
  "(mentionQuery st = Some mq \<longrightarrow>
      messageInput (handleMentionSelect u sel st)
        = take (mq_index mq) (messageInput st) @ ''@'' @ u @ '' ''
            @ drop (caret sel) (messageInput st))
   \<and> (cursor \<le> length val \<and> prefix ''@'' (currentWord val cursor) \<longrightarrow>
        val = take (cursor - length (currentWord val cursor)) val @ currentWord val cursor
                @ drop cursor val
        \<and> \<not> list_ex is_space (currentWord val cursor)
        \<and> messageInput
             (handleMentionSelect u (Some cursor) (handleInputChange val (Some cursor) st'))
            = take (cursor - length (currentWord val cursor)) val @ ''@'' @ u @ '' ''
                @ drop cursor val)"
  using handleMentionSelect_text [of st mq u sel] mention_at_caret(1) [of cursor val]
    mention_at_caret(2) [of cursor val u st'] currentWord_suffix(2) [of cursor val]
  by blast

theorem mention_splice_witness:
  "mentionQuery typed_at_am = Some \<lparr>mq_active = True, mq_text = ''am'', mq_index = 0\<rparr>
   \<and> map username (mentionableMembers ''u1'' typed_at_am) = [''amy'', ''amir'']
   \<and> messageInput (handleMentionSelect ''amir'' (Some 3) typed_at_am) = ''@amir ''
   \<and> 6 \<le> length ''hi @am there''
   \<and> prefix ''@'' (currentWord ''hi @am there'' 6)
   \<and> currentWord ''hi @am there'' 6 = ''@am''
   \<and> messageInput (handleMentionSelect ''amir'' (Some 6)
         (handleInputChange ''hi @am there'' (Some 6) open_A))
       = ''hi @amir  there''"
proof -
  have st: "typed_at_am
      = open_A\<lparr>messageInput := ''@am'',
          mentionQuery := Some \<lparr>mq_active = True, mq_text = ''am'', mq_index = 0\<rparr>\<rparr>"
    by (simp add: typed_at_am_def handleInputChange_def currentWord_def caret_def is_space_def
        to_lower_def Let_def)
  have q: "mentionQuery typed_at_am = Some \<lparr>mq_active = True, mq_text = ''am'', mq_index = 0\<rparr>"
    by (simp add: st)
  have i: "messageInput typed_at_am = ''@am''"
    by (simp add: st)
  have c: "map username (mentionableMembers ''u1'' typed_at_am) = [''amy'', ''amir'']"
    by (simp add: st mentionableMembers_def activeConv_def open_A_def initial_state_def
        conversation_A_def to_lower_def char_of_def bit_0)
  have w: "currentWord ''hi @am there'' 6 = ''@am''"
    by (simp add: currentWord_def is_space_def)
  have l: "(6::nat) \<le> length ''hi @am there''" by simp
  have p: "prefix ''@'' (currentWord ''hi @am there'' 6)" by (simp add: w)
  have A: "messageInput (handleMentionSelect ''amir'' (Some 3) typed_at_am) = ''@amir ''"
    using mention_splice [of typed_at_am _ "''amir''" "Some 3"] q
    by (simp add: i caret_def)
  have "messageInput (handleMentionSelect ''amir'' (Some 6)
         (handleInputChange ''hi @am there'' (Some 6) open_A))
       = take (6 - length (currentWord ''hi @am there'' 6)) ''hi @am there'' @ ''@'' @ ''amir''
           @ '' '' @ drop 6 ''hi @am there''"
    using mention_splice [of _ _ "''amir''" _ 6 "''hi @am there''" open_A] l p by blast
  then have B: "messageInput (handleMentionSelect ''amir'' (Some 6)
         (handleInputChange ''hi @am there'' (Some 6) open_A))
       = ''hi @amir  there''"
    by (simp add: w)
  from q c A l p w B show ?thesis by blast
qed

text \<open>
  The scenario of the claim, with the caret moved back into the token before the
  candidate is clicked (no input change happens, so the stored index stays): the
  text after the caret is kept and the token is not replaced as a whole. The same
  text and the same stored index give another result for another caret.
\<close>

theorem mention_splice_counterexample:
  "messageInput typed_at_am = ''@am''
   \<and> mentionQuery typed_at_am = Some \<lparr>mq_active = True, mq_text = ''am'', mq_index = 0\<rparr>
   \<and> messageInput (handleMentionSelect ''amir'' (Some 1) typed_at_am) = ''@amir am''
   \<and> messageInput (handleMentionSelect ''amir'' (Some 3) typed_at_am) = ''@amir ''"
  by (simp add: typed_at_am_def handleInputChange_def currentWord_def open_A_def
      initial_state_def caret_def is_space_def to_lower_def handleMentionSelect_def Let_def)

subsection \<open>Typing indicators\<close>

text \<open>
  C8 (as amended). A \<^verbatim>\<open>user_typing\<close> or \<^verbatim>\<open>user_stop_typing\<close> event for a conversation
  other than the active one changes nothing. A \<^verbatim>\<open>user_typing\<close> event for the active
  conversation adds its user to the typing set unless that user is the signed-in
  user, whose own events are dropped. A \<^verbatim>\<open>user_stop_typing\<close> event for the active
  conversation removes its user from the set.
\<close>

theorem typing_events:
  "(Some (conversationId d) \<noteq> activeConvId st \<longrightarrow>
      onTyping me d st = st \<and> onStopTyping d st = st)
   \<and> (Some (conversationId d) = activeConvId st \<and> userId d \<noteq> me \<longrightarrow>
        typingUsers (onTyping me d st) = insert (userId d) (typingUsers st))
   \<and> (userId d = me \<longrightarrow> onTyping me d st = st)
   \<and> (Some (conversationId d) = activeConvId st \<longrightarrow>
        typingUsers (onStopTyping d st) = typingUsers st - {userId d})"
  by (simp add: onTyping_def onStopTyping_def)

theorem typing_events_witness:
  "Some (conversationId \<lparr>conversationId = ''B'', userId = ''u2''\<rparr>) \<noteq> activeConvId open_A
   \<and> onTyping ''u1'' \<lparr>conversationId = ''B'', userId = ''u2''\<rparr> open_A = open_A
   \<and> Some (conversationId \<lparr>conversationId = ''A'', userId = ''u2''\<rparr>) = activeConvId open_A
   \<and> userId \<lparr>conversationId = ''A'', userId = ''u2''\<rparr> \<noteq> ''u1''
   \<and> typingUsers (onTyping ''u1'' \<lparr>conversationId = ''A'', userId = ''u2''\<rparr> open_A) = {''u2''}
   \<and> typingUsers (onStopTyping \<lparr>conversationId = ''A'', userId = ''u2''\<rparr>
        (open_A\<lparr>typingUsers := {''u2'', ''u3''}\<rparr>)) = {''u3''}
   \<and> userId \<lparr>conversationId = ''A'', userId = ''u1''\<rparr> = ''u1''
   \<and> onTyping ''u1'' \<lparr>conversationId = ''A'', userId = ''u1''\<rparr> open_A = open_A"
proof -
  let ?b = "\<lparr>conversationId = ''B'', userId = ''u2''\<rparr>"
  let ?a = "\<lparr>conversationId = ''A'', userId = ''u2''\<rparr>"
  let ?s = "\<lparr>conversationId = ''A'', userId = ''u1''\<rparr>"
  have act: "activeConvId open_A = Some ''A''" "typingUsers open_A = {}"
    by (simp_all add: open_A_def initial_state_def)
  have h1: "Some (conversationId ?b) \<noteq> activeConvId open_A" by (simp add: act)
  have h2: "Some (conversationId ?a) = activeConvId open_A" by (simp add: act)
  have h3: "userId ?a \<noteq> ''u1''" by simp
  have h4: "Some (conversationId ?a) = activeConvId (open_A\<lparr>typingUsers := {''u2'', ''u3''}\<rparr>)"
    by (simp add: act)
  have h5: "userId ?s = ''u1''" by simp
  have A: "onTyping ''u1'' ?b open_A = open_A"
    using typing_events [of ?b open_A "''u1''"] h1 by blast
  have "typingUsers (onTyping ''u1'' ?a open_A) = insert (userId ?a) (typingUsers open_A)"
    using typing_events [of ?a open_A "''u1''"] h2 h3 by blast
  then have B: "typingUsers (onTyping ''u1'' ?a open_A) = {''u2''}"
    by (simp add: act)
  have "typingUsers (onStopTyping ?a (open_A\<lparr>typingUsers := {''u2'', ''u3''}\<rparr>))
      = typingUsers (open_A\<lparr>typingUsers := {''u2'', ''u3''}\<rparr>) - {userId ?a}"
    using typing_events [of ?a "open_A\<lparr>typingUsers := {''u2'', ''u3''}\<rparr>" "''u1''"] h4 by blast
  then have C: "typingUsers (onStopTyping ?a (open_A\<lparr>typingUsers := {''u2'', ''u3''}\<rparr>))
      = {''u3''}"
    by auto
  have D: "onTyping ''u1'' ?s open_A = open_A"
    using typing_events [of ?s open_A "''u1''"] h5 by blast
  from h1 A h2 h3 B C h5 D show ?thesis by blast
qed

text \<open>
  An event for the active conversation whose user is the signed-in user: the
  user is not added.
\<close>

theorem typing_self_counterexample:
  "Some (conversationId \<lparr>conversationId = ''A'', userId = ''u1''\<rparr>) = activeConvId open_A
   \<and> ''u1'' \<notin> typingUsers (onTyping ''u1'' \<lparr>conversationId = ''A'', userId = ''u1''\<rparr> open_A)"
  by (simp add: onTyping_def open_A_def initial_state_def)

subsection \<open>The pinned message\<close>














end
